theory Spec2Isabelle
  imports Main "HOL-Library.Word"
begin

section \<open>JavaScript values\<close>

text \<open>
  The values that flow through \<^verbatim>\<open>voskjshttp.js\<close>: query-string arguments (a string, or an
  array of strings when an argument is repeated, or \<^verbatim>\<open>undefined\<close> when it is missing),
  the millisecond timestamp, the parsed grammar, the model handle and the engine's payload.
  An object is the list of its own enumerable properties.
\<close>

datatype jsval =
    Undefined
  | Null
  | Bool bool
  | Num int
  | Str string
  | Arr "jsval list"
  | Obj "(string \<times> jsval) list"

text \<open>What \<^verbatim>\<open>if (v)\<close>, \<^verbatim>\<open>!v\<close>, \<^verbatim>\<open>v ? a : b\<close> and \<^verbatim>\<open>v && w\<close> test.\<close>

fun truthy :: "jsval \<Rightarrow> bool" where
  "truthy Undefined = False"
| "truthy Null = False"
| "truthy (Bool b) = b"
| "truthy (Num i) = (i \<noteq> 0)"
| "truthy (Str s) = (s \<noteq> [])"
| "truthy (Arr xs) = True"
| "truthy (Obj ps) = True"

text \<open>
  Decimal digits of a natural number, as a template literal prints an integer (JavaScript
  does so below \<^verbatim>\<open>1e21\<close>; the timestamps, latencies and counters of this program are
  integers far below that).
\<close>

function dec :: "nat \<Rightarrow> string" where
  "dec n = (if n < 10 then [''0123456789'' ! n]
            else dec (n div 10) @ [''0123456789'' ! (n mod 10)])"
  by pat_completeness auto
termination
  by (relation "measure (\<lambda>n. n)") auto

declare dec.simps [simp del]

fun join :: "string list \<Rightarrow> string" where
  "join [] = []"
| "join [s] = s"
| "join (s # t # ts) = s @ '','' @ join (t # ts)"

text \<open>
  The string a template literal \<^verbatim>\<open>${v}\<close> inserts for \<open>v\<close>: an array is its elements joined
  by commas, with \<^verbatim>\<open>undefined\<close> and \<^verbatim>\<open>null\<close> elements printed as nothing.
\<close>

fun to_string :: "jsval \<Rightarrow> string" where
  "to_string Undefined = ''undefined''"
| "to_string Null = ''null''"
| "to_string (Bool b) = (if b then ''true'' else ''false'')"
| "to_string (Num i) = (if i < 0 then ''-'' @ dec (nat (- i)) else dec (nat i))"
| "to_string (Str s) = s"
| "to_string (Arr xs) =
     join (map (\<lambda>x. if x = Undefined \<or> x = Null then [] else to_string x) xs)"
| "to_string (Obj ps) = ''[object Object]''"

text \<open>
  Assignment of one property: an existing property keeps its place and takes the new
  value, a new one is added at the end. \<open>spread\<close> copies the properties of \<open>src\<close> into \<open>obj\<close>
  one by one, which is what \<^verbatim>\<open>{...obj, ...src}\<close> does.
\<close>

fun set_prop :: "string \<Rightarrow> jsval \<Rightarrow> (string \<times> jsval) list \<Rightarrow> (string \<times> jsval) list" where
  "set_prop k v [] = [(k, v)]"
| "set_prop k v (p # ps) = (if fst p = k then (k, v) # ps else p # set_prop k v ps)"

definition spread :: "(string \<times> jsval) list \<Rightarrow> (string \<times> jsval) list \<Rightarrow> (string \<times> jsval) list" where
  "spread obj src = foldl (\<lambda>acc p. set_prop (fst p) (snd p) acc) obj src"

section \<open>What the program runs against\<close>

type_synonym byte = "8 word"

text \<open>
  Modelled from the spec: the Engine Adapter (\<^verbatim>\<open>./voskjs\<close>, not among the sources).
  \<^verbatim>\<open>transcriptFromFile\<close> and \<^verbatim>\<open>transcriptFromBuffer\<close> take an audio source, the model handle
  and the grammar, and either fail with an engine-defined error or return a result payload
  (an engine-defined object) together with the processing latency in milliseconds.
  A failure is kept as the text \<^verbatim>\<open>${error}\<close> prints.
\<close>

record transcriptData =
  latency :: int
  result :: "(string \<times> jsval) list"

text \<open>
  The built-ins \<^verbatim>\<open>JSON.parse\<close> and \<^verbatim>\<open>JSON.stringify\<close> and the two engine functions are
  parameters of the model. \<^verbatim>\<open>JSON.parse\<close> throws on a text that is not JSON: \<open>Inl\<close> of the
  printed error.
\<close>

record env =
  JSON_parse :: "string \<Rightarrow> string + jsval"
  JSON_stringify :: "jsval \<Rightarrow> string"
  transcriptFromFile :: "jsval \<Rightarrow> jsval \<Rightarrow> jsval \<Rightarrow> string + transcriptData"
  transcriptFromBuffer :: "byte list \<Rightarrow> jsval \<Rightarrow> jsval \<Rightarrow> string + transcriptData"

text \<open>
  What a run does to the outside, in order: a line on the console (with the time given to
  \<^verbatim>\<open>log\<close>, or the clock read when the line is printed), the usage text, a call of the
  engine with its arguments, the release of the model, the end of the process.
\<close>

datatype logtime = Clock | At nat

datatype effect =
    Log logtime "string option" string
  | Usage string
  | TranscriptFromFile jsval jsval jsval
  | TranscriptFromBuffer "byte list" jsval jsval
  | FreeModel jsval
  | Exit nat

fun is_engine_call :: "effect \<Rightarrow> bool" where
  "is_engine_call (TranscriptFromFile f m g) = True"
| "is_engine_call (TranscriptFromBuffer b m g) = True"
| "is_engine_call e = False"

definition engine_calls :: "effect list \<Rightarrow> effect list" where
  "engine_calls t = filter is_engine_call t"

text \<open>The module's global variables.\<close>

record server =
  debug :: bool
  activeRequests :: int
  model :: jsval
  modelName :: string

text \<open>
  An incoming request: \<open>req_method\<close> is \<^verbatim>\<open>req.method\<close>, \<open>query\<close> is the object
  \<^verbatim>\<open>url.parse(req.url, true).query\<close> (a missing argument reads as \<^verbatim>\<open>undefined\<close>), \<open>chunks\<close> are the arguments of the stream's
  \<^verbatim>\<open>'data'\<close> events in arrival order, and \<open>ended\<close> says whether the stream emits \<^verbatim>\<open>'end'\<close>
  after them.
\<close>

record request =
  req_method :: string
  url :: string
  query :: "string \<Rightarrow> jsval"
  chunks :: "byte list list"
  ended :: bool

text \<open>The response object: \<open>sent\<close> is the text given to \<^verbatim>\<open>res.end\<close>, once it has been called.\<close>

record res =
  statusCode :: nat
  headers :: "(string \<times> string) list"
  sent :: "string option"

definition new_res :: res where
  "new_res = \<lparr>statusCode = 200, headers = [], sent = None\<rparr>"

definition setHeader :: "string \<Rightarrow> string \<Rightarrow> res \<Rightarrow> res" where
  "setHeader name v r = r\<lparr>headers := filter (\<lambda>h. fst h \<noteq> name) (headers r) @ [(name, v)]\<rparr>"

record outcome =
  res_of :: res
  srv_of :: server
  trace_of :: "effect list"

definition after :: "effect list \<Rightarrow> outcome \<Rightarrow> outcome" where
  "after t out = out\<lparr>trace_of := t @ trace_of out\<rparr>"

section \<open>The request handlers\<close>

text \<open>
  \<^verbatim>\<open>log\<close> prints one line, made of the time, the type if one is given, and the text; the
  effect keeps the three apart.
\<close>

definition log :: "string \<Rightarrow> string option \<Rightarrow> logtime \<Rightarrow> effect" where
  "log text type time = Log time type text"

definition errorResponse :: "string \<Rightarrow> nat \<Rightarrow> res \<Rightarrow> server \<Rightarrow> outcome" where
  "errorResponse message code r S =
     \<lparr>res_of = r\<lparr>statusCode := code, sent := Some (''{\"error\":\"'' @ message @ ''\"}'')\<rparr>,
      srv_of = S,
      trace_of = [log message (Some ''ERROR'') Clock]\<rparr>"

definition successResponse :: "jsval \<Rightarrow> string \<Rightarrow> res \<Rightarrow> server \<Rightarrow> outcome" where
  "successResponse requestId json r S =
     \<lparr>res_of = r\<lparr>sent := Some json\<rparr>,
      srv_of = S,
      trace_of = [log (''response '' @ to_string requestId @ '' '' @ json) None Clock]\<rparr>"

text \<open>The two \<^verbatim>\<open>if (debug)\<close> blocks around the engine call.\<close>

definition thread_started :: "server \<Rightarrow> server \<times> effect list" where
  "thread_started S =
     (if debug S
      then (let S' = S\<lparr>activeRequests := activeRequests S + 1\<rparr>
            in (S', [log (''active requests '' @ to_string (Num (activeRequests S'))) (Some ''debug'') Clock]))
      else (S, []))"

definition thread_finished :: "server \<Rightarrow> server \<times> effect list" where
  "thread_finished S =
     (if debug S
      then (let S' = S\<lparr>activeRequests := activeRequests S - 1\<rparr>
            in (S', [log (''active requests '' @ to_string (Num (activeRequests S'))) (Some ''debug'') Clock]))
      else (S, []))"

text \<open>\<^verbatim>\<open>requestedGrammar ? JSON.parse(requestedGrammar) : undefined\<close>\<close>

definition parse_grammar :: "env \<Rightarrow> jsval \<Rightarrow> string + jsval" where
  "parse_grammar E requestedGrammar =
     (if truthy requestedGrammar then JSON_parse E (to_string requestedGrammar) else Inr Undefined)"

text \<open>
  The part of both handlers after the engine has returned \<open>transcriptData\<close>: the counter
  goes down, the response object \<^verbatim>\<open>{...{id}, ...{latency}, ...transcriptData.result}\<close> is
  built and sent.
\<close>

definition respond :: "env \<Rightarrow> server \<Rightarrow> jsval \<Rightarrow> transcriptData \<Rightarrow> res \<Rightarrow> outcome" where
  "respond E S id' transcriptData r =
     (let (S2, t2) = thread_finished S;
          responseJson = JSON_stringify E
            (Obj (spread (spread (spread [] [(''id'', id')]) [(''latency'', Num (latency transcriptData))])
                    (result transcriptData)));
          t3 = (if debug S2
                then [log (''latency '' @ to_string id' @ '' '' @ to_string (Num (latency transcriptData)) @ ''ms'')
                        (Some ''debug'') Clock]
                else [])
      in after (t2 @ t3) (successResponse id' responseJson r S2))"

text \<open>
  An \<^verbatim>\<open>await\<close>ed engine call that fails, and a \<^verbatim>\<open>JSON.parse\<close> that throws, both land in the
  one \<^verbatim>\<open>catch\<close>. A handler is suspended at its \<^verbatim>\<open>await\<close> and goes on when the engine has
  answered; the model follows one handler from its call to its response, the engine's
  answer being a function of the arguments of the call.
\<close>

definition responseTranscriptGet ::
  "env \<Rightarrow> server \<Rightarrow> jsval \<Rightarrow> jsval \<Rightarrow> jsval \<Rightarrow> jsval \<Rightarrow> res \<Rightarrow> outcome" where
  "responseTranscriptGet E S id' requestedFilename requestedModelName requestedGrammar r =
     (let (S1, t1) = thread_started S
      in case parse_grammar E requestedGrammar of
           Inl error \<Rightarrow>
             after t1 (errorResponse (''id '' @ to_string id' @ '' transcript function '' @ error) 415 r S1)
         | Inr grammar \<Rightarrow>
             (case transcriptFromFile E requestedFilename (model S1) grammar of
                Inl error \<Rightarrow>
                  after (t1 @ [TranscriptFromFile requestedFilename (model S1) grammar])
                    (errorResponse (''id '' @ to_string id' @ '' transcript function '' @ error) 415 r S1)
              | Inr transcriptData \<Rightarrow>
                  after (t1 @ [TranscriptFromFile requestedFilename (model S1) grammar])
                    (respond E S1 id' transcriptData r)))"

definition responseTranscriptPost ::
  "env \<Rightarrow> server \<Rightarrow> jsval \<Rightarrow> byte list \<Rightarrow> jsval \<Rightarrow> jsval \<Rightarrow> res \<Rightarrow> outcome" where
  "responseTranscriptPost E S id' buffer requestedModelName requestedGrammar r =
     (let (S1, t1) = thread_started S
      in case parse_grammar E requestedGrammar of
           Inl error \<Rightarrow>
             after t1 (errorResponse (''id '' @ to_string id' @ '' transcript function '' @ error) 415 r S1)
         | Inr grammar \<Rightarrow>
             (case transcriptFromBuffer E buffer (model S1) grammar of
                Inl error \<Rightarrow>
                  after (t1 @ [TranscriptFromBuffer buffer (model S1) grammar])
                    (errorResponse (''id '' @ to_string id' @ '' transcript function '' @ error) 415 r S1)
              | Inr transcriptData \<Rightarrow>
                  after (t1 @ [TranscriptFromBuffer buffer (model S1) grammar])
                    (respond E S1 id' transcriptData r)))"

text \<open>\<^verbatim>\<open>req.url.match(/^\/transcript/)\<close>: the URL begins with the eleven characters.\<close>

definition url_match :: "string \<Rightarrow> bool" where
  "url_match u = (take 11 u = ''/transcript'')"

text \<open>\<^verbatim>\<open>body.push(chunk)\<close> for each \<^verbatim>\<open>'data'\<close> event, and \<^verbatim>\<open>Buffer.concat(body)\<close>.\<close>

definition push_chunks :: "byte list list \<Rightarrow> byte list list \<Rightarrow> byte list list" where
  "push_chunks body cs = foldl (\<lambda>b chunk. b @ [chunk]) body cs"

definition Buffer_concat :: "byte list list \<Rightarrow> byte list" where
  "Buffer_concat body = concat body"

text \<open>
  \<open>currentTime\<close> is the reading of \<^verbatim>\<open>unixTimeMsecs()\<close> the handler takes for the request.
  A POST whose stream never emits \<^verbatim>\<open>'end'\<close> gets no response.
\<close>

definition requestListener :: "env \<Rightarrow> server \<Rightarrow> request \<Rightarrow> nat \<Rightarrow> res \<Rightarrow> outcome" where
  "requestListener E S req currentTime r0 =
     (let r = setHeader ''Content-Type'' ''application/json'' r0
      in if \<not> url_match (url req)
         then errorResponse (''path not allowed '' @ url req) 405 r S
         else if req_method req = ''GET''
         then (let queryObject = query req;
                   requestedModelName = queryObject ''model'';
                   requestedFilename = queryObject ''speech'';
                   requestedGrammar = queryObject ''grammar'';
                   requestedId = queryObject ''id'';
                   id' = (if truthy requestedId then requestedId else Num (int currentTime));
                   l = log (''request GET '' @ to_string id' @ '' '' @ to_string requestedFilename @ '' ''
                            @ (if truthy requestedModelName then to_string requestedModelName else [])
                            @ '' '' @ (if truthy requestedGrammar then to_string requestedGrammar else []))
                         None (At currentTime)
               in if \<not> truthy requestedFilename
                  then after [l]
                         (errorResponse (''id '' @ to_string id'
                            @ '' \"speech\" attribute not found in the body request'') 405 r S)
                  else if truthy requestedModelName \<and> requestedModelName \<noteq> Str (modelName S)
                  then after [l]
                         (errorResponse (''id '' @ to_string id' @ '' Vosk model '' @ to_string (model S)
                            @ '' unknown'') 404 r S)
                  else after [l]
                         (responseTranscriptGet E S id' requestedFilename requestedModelName
                            requestedGrammar r))
         else if req_method req = ''POST''
         then (let queryObject = query req;
                   requestedModelName = queryObject ''model'';
                   requestedGrammar = queryObject ''grammar'';
                   requestedId = queryObject ''id'';
                   id' = (if truthy requestedId then requestedId else Num (int currentTime));
                   l = log (''request POST '' @ to_string id' @ '' '' @ ''speechBuffer'' @ '' ''
                            @ (if truthy requestedModelName then to_string requestedModelName else [])
                            @ '' '' @ (if truthy requestedGrammar then to_string requestedGrammar else []))
                         None (At currentTime)
               in if truthy requestedModelName \<and> requestedModelName \<noteq> Str (modelName S)
                  then after [l]
                         (errorResponse (''id '' @ to_string id' @ '' Vosk model '' @ to_string (model S)
                            @ '' unknown'') 404 r S)
                  else (let body = push_chunks [] (chunks req)
                        in if ended req
                           then after [l]
                                  (responseTranscriptPost E S id' (Buffer_concat body)
                                     requestedModelName requestedGrammar r)
                           else \<lparr>res_of = r, srv_of = S, trace_of = [l]\<rparr>))
         else errorResponse (''method not allowed '' @ req_method req) 405 r S)"

section \<open>Start and end of the process\<close>

text \<open>
  \<open>args\<close> is the object of command-line arguments that \<^verbatim>\<open>getArgs()\<close> returns and
  \<open>HTTP_PORT\<close> the value of \<^verbatim>\<open>process.env.PORT || 3000\<close>. \<^verbatim>\<open>helpAndExit\<close> prints the usage
  text and ends the process, so \<^verbatim>\<open>validateArgs\<close> does not return then: \<open>Inl\<close> of what
  happened instead.
\<close>

record settings =
  modelDirectory :: jsval
  port :: jsval
  debugLevel :: jsval

definition helpAndExit :: "string \<Rightarrow> effect list" where
  "helpAndExit programName = [Usage programName, Exit 1]"

definition validateArgs :: "(string \<Rightarrow> jsval) \<Rightarrow> string \<Rightarrow> jsval \<Rightarrow> effect list + settings" where
  "validateArgs args programName HTTP_PORT =
     (let modelDirectory = args ''model''
      in if \<not> truthy modelDirectory
         then Inl (helpAndExit programName)
         else Inr \<lparr>modelDirectory = modelDirectory,
                   port = (if \<not> truthy (args ''port'') then HTTP_PORT else args ''port''),
                   debugLevel = args ''debug''\<rparr>)"

text \<open>
  Modelled from the spec: \<^verbatim>\<open>freeModel\<close> of \<^verbatim>\<open>./voskjs\<close>, which releases the model and is safe
  to call during an abnormal shutdown; it is the effect \<open>FreeModel\<close> and does not throw.
\<close>

definition shutdown :: "string \<Rightarrow> server \<Rightarrow> effect list" where
  "shutdown signal S =
     [log (signal @ '' received'') None Clock,
      FreeModel (model S),
      log ''Shutdown done'' None Clock,
      Exit 0]"

text \<open>
  The three listeners that \<^verbatim>\<open>main\<close> registers with \<^verbatim>\<open>process.on\<close>; a signal listener is
  called with the signal's name, \<^verbatim>\<open>'uncaughtException'\<close> with the error.
\<close>

datatype process_event = SIGTERM | SIGINT | UncaughtException string

fun process_on :: "process_event \<Rightarrow> server \<Rightarrow> effect list" where
  "process_on SIGTERM S = shutdown ''SIGTERM'' S"
| "process_on SIGINT S = shutdown ''SIGINT'' S"
| "process_on (UncaughtException err) S =
     log (''there was an uncaught error: '' @ err) (Some ''FATAL'') Clock
       # shutdown ''uncaughtException'' S"

text \<open>A process ends at its first \<^verbatim>\<open>process.exit\<close>: the code it ends with, and what it did before.\<close>

fun exit_code :: "effect list \<Rightarrow> nat option" where
  "exit_code [] = None"
| "exit_code (Exit n # t) = Some n"
| "exit_code (e # t) = exit_code t"

fun before_exit :: "effect list \<Rightarrow> effect list" where
  "before_exit [] = []"
| "before_exit (Exit n # t) = []"
| "before_exit (e # t) = e # before_exit t"

fun is_release :: "effect \<Rightarrow> bool" where
  "is_release (FreeModel m) = True"
| "is_release e = False"

definition releases :: "effect list \<Rightarrow> effect list" where
  "releases t = filter is_release (before_exit t)"

section \<open>Well-formed error envelopes\<close>

text \<open>
  A JSON string after its opening quote: \<open>string_rest\<close> reads up to the closing quote and
  returns what follows it. A backslash starts one of the escapes of JSON, and a control
  character may not stand in a string.
\<close>

definition hex_digit :: "char \<Rightarrow> bool" where
  "hex_digit c = (c \<in> set ''0123456789abcdefABCDEF'')"

fun string_rest :: "string \<Rightarrow> string option" where
  "string_rest [] = None"
| "string_rest (c # cs) =
     (if c = CHR 0x22 then Some cs
      else if c = CHR 0x5C
      then (case cs of
              [] \<Rightarrow> None
            | e # es \<Rightarrow>
                if e \<in> set [CHR 0x22, CHR 0x5C, CHR ''/'', CHR ''b'', CHR ''f'', CHR ''n'', CHR ''r'', CHR ''t'']
                then string_rest es
                else if e = CHR ''u'' \<and> 4 \<le> length es \<and> list_all hex_digit (take 4 es)
                then string_rest (drop 4 es)
                else None)
      else if (of_char c :: nat) < 32 then None
      else string_rest cs)"

text \<open>
  The text is a JSON object with the single member \<^verbatim>\<open>error\<close>, a string, as
  \<^verbatim>\<open>errorResponse\<close> lays it out: \<^verbatim>\<open>{"error":"\<close>, the string, \<^verbatim>\<open>}\<close>.
\<close>

definition error_envelope :: "string \<Rightarrow> bool" where
  "error_envelope text =
     (take 10 text = ''{\"error\":\"'' \<and> string_rest (drop 10 text) = Some ''}'')"

section \<open>A sample installation\<close>

text \<open>
  Concrete surroundings for the examples. \<open>json_text\<close> stands for \<^verbatim>\<open>JSON.stringify\<close> on the
  values the examples print (integers, strings, arrays, objects), and \<open>sample_parse\<close> for
  \<^verbatim>\<open>JSON.parse\<close> on the grammar texts the examples send: one array of phrases, which parses,
  and texts that are not JSON.
\<close>

definition escape :: "char \<Rightarrow> string" where
  "escape c =
     (if c = CHR 0x22 then [CHR 0x5C, CHR 0x22]
      else if c = CHR 0x5C then [CHR 0x5C, CHR 0x5C]
      else if c = CHR 0x08 then [CHR 0x5C, CHR ''b'']
      else if c = CHR 0x09 then [CHR 0x5C, CHR ''t'']
      else if c = CHR 0x0A then [CHR 0x5C, CHR ''n'']
      else if c = CHR 0x0C then [CHR 0x5C, CHR ''f'']
      else if c = CHR 0x0D then [CHR 0x5C, CHR ''r'']
      else if (of_char c :: nat) < 32
      then [CHR 0x5C, CHR ''u'', CHR ''0'', CHR ''0'',
            ''0123456789abcdef'' ! ((of_char c :: nat) div 16),
            ''0123456789abcdef'' ! ((of_char c :: nat) mod 16)]
      else [c])"

definition quote :: "string \<Rightarrow> string" where
  "quote s = [CHR 0x22] @ concat (map escape s) @ [CHR 0x22]"

fun json_text :: "jsval \<Rightarrow> string" where
  "json_text Undefined = ''undefined''"
| "json_text Null = ''null''"
| "json_text (Bool b) = (if b then ''true'' else ''false'')"
| "json_text (Num i) = to_string (Num i)"
| "json_text (Str s) = quote s"
| "json_text (Arr xs) =
     ''['' @ join (map (\<lambda>x. if x = Undefined then ''null'' else json_text x) xs) @ '']''"
| "json_text (Obj ps) =
     ''{'' @ join (map (\<lambda>p. quote (fst p) @ '':'' @ json_text (snd p))
                     (filter (\<lambda>p. snd p \<noteq> Undefined) ps)) @ ''}''"

definition sample_parse :: "string \<Rightarrow> string + jsval" where
  "sample_parse text =
     (if text = ''[\"experience proves this\"]''
      then Inr (Arr [Str ''experience proves this''])
      else Inl ''SyntaxError: Unexpected end of JSON input'')"

definition sample_transcript :: transcriptData where
  "sample_transcript = \<lparr>latency = 12, result = [(''text'', Str ''experience proves this'')]\<rparr>"

definition sample_env :: env where
  "sample_env =
     \<lparr>JSON_parse = sample_parse,
      JSON_stringify = json_text,
      transcriptFromFile =
        (\<lambda>f m g. if f = Str ''missing.wav'' then Inl ''Error: file not found'' else Inr sample_transcript),
      transcriptFromBuffer = (\<lambda>b m g. Inr sample_transcript)\<rparr>"

definition sample_server :: server where
  "sample_server =
     \<lparr>debug = True, activeRequests = 0, model = Obj [], modelName = ''vosk-model-small-en-us-0.15''\<rparr>"

definition no_query :: "string \<Rightarrow> jsval" where
  "no_query = (\<lambda>k. Undefined)"

text \<open>The path of a URL: what stands before the query string.\<close>

definition pathname :: "string \<Rightarrow> string" where
  "pathname u = takeWhile (\<lambda>c. c \<noteq> CHR ''?'') u"

text \<open>Requests, named after what they ask for.\<close>

definition post_two_chunks :: request where
  "post_two_chunks =
     \<lparr>req_method = ''POST'', url = ''/transcript'', query = no_query,
      chunks = [[0x52, 0x49], [0x46, 0x46]], ended = True\<rparr>"

definition post_with_grammar :: request where
  "post_with_grammar =
     \<lparr>req_method = ''POST'', url = ''/transcript?grammar=%5B%22experience%20proves%20this%22%5D'',
      query = no_query(''grammar'' := Str ''[\"experience proves this\"]''),
      chunks = [[0x52], [], [0x49, 0x46, 0x46]], ended = True\<rparr>"

definition get_missing_file :: request where
  "get_missing_file =
     \<lparr>req_method = ''GET'', url = ''/transcript?speech=missing.wav'',
      query = no_query(''speech'' := Str ''missing.wav''), chunks = [], ended = True\<rparr>"

definition post_empty :: request where
  "post_empty =
     \<lparr>req_method = ''POST'', url = ''/transcript'', query = no_query, chunks = [], ended = True\<rparr>"

definition post_empty_bad_grammar :: request where
  "post_empty_bad_grammar =
     \<lparr>req_method = ''POST'', url = ''/transcript?grammar=%7B'',
      query = no_query(''grammar'' := Str ''{''), chunks = [], ended = True\<rparr>"

definition post_empty_grammar :: request where
  "post_empty_grammar =
     \<lparr>req_method = ''POST'', url = ''/transcript?grammar='',
      query = no_query(''grammar'' := Str []), chunks = [[0x52, 0x49, 0x46, 0x46]], ended = True\<rparr>"

definition post_wrong_model :: request where
  "post_wrong_model =
     \<lparr>req_method = ''POST'', url = ''/transcript?model=wrong'',
      query = no_query(''model'' := Str ''wrong''), chunks = [[0x52, 0x49, 0x46, 0x46]], ended = True\<rparr>"

definition post_bad_grammar :: request where
  "post_bad_grammar =
     \<lparr>req_method = ''POST'', url = ''/transcript?grammar=%7B'',
      query = no_query(''grammar'' := Str ''{''), chunks = [[0x52, 0x49, 0x46, 0x46]], ended = True\<rparr>"

definition get_speech :: request where
  "get_speech =
     \<lparr>req_method = ''GET'', url = ''/transcript?speech=sample.wav'',
      query = no_query(''speech'' := Str ''sample.wav''), chunks = [], ended = True\<rparr>"

definition get_no_speech :: request where
  "get_no_speech =
     \<lparr>req_method = ''GET'', url = ''/transcript'', query = no_query, chunks = [], ended = True\<rparr>"

definition get_wrong_model :: request where
  "get_wrong_model =
     \<lparr>req_method = ''GET'', url = ''/transcript?speech=a.wav&model=wrong'',
      query = no_query(''speech'' := Str ''a.wav'', ''model'' := Str ''wrong''),
      chunks = [], ended = True\<rparr>"

definition get_wrong_model_no_speech :: request where
  "get_wrong_model_no_speech =
     \<lparr>req_method = ''GET'', url = ''/transcript?model=wrong'',
      query = no_query(''model'' := Str ''wrong''), chunks = [], ended = True\<rparr>"

definition get_bad_grammar :: request where
  "get_bad_grammar =
     \<lparr>req_method = ''GET'', url = ''/transcript?speech=a.wav&grammar=%7B'',
      query = no_query(''speech'' := Str ''a.wav'', ''grammar'' := Str ''{''),
      chunks = [], ended = True\<rparr>"

definition get_no_speech_bad_grammar :: request where
  "get_no_speech_bad_grammar =
     \<lparr>req_method = ''GET'', url = ''/transcript?grammar=%7B'',
      query = no_query(''grammar'' := Str ''{''), chunks = [], ended = True\<rparr>"

definition get_empty_id :: request where
  "get_empty_id =
     \<lparr>req_method = ''GET'', url = ''/transcript?speech=a.wav&id='',
      query = no_query(''speech'' := Str ''a.wav'', ''id'' := Str []),
      chunks = [], ended = True\<rparr>"

definition get_with_id :: request where
  "get_with_id =
     \<lparr>req_method = ''GET'', url = ''/transcript?id=req-17&speech=a.wav'',
      query = no_query(''id'' := Str ''req-17'', ''speech'' := Str ''a.wav''),
      chunks = [], ended = True\<rparr>"

definition get_other_path :: request where
  "get_other_path =
     \<lparr>req_method = ''GET'', url = ''/transcriptions?speech=a.wav'',
      query = no_query(''speech'' := Str ''a.wav''), chunks = [], ended = True\<rparr>"

definition get_root :: request where
  "get_root = \<lparr>req_method = ''GET'', url = ''/'', query = no_query, chunks = [], ended = True\<rparr>"

definition put_transcript :: request where
  "put_transcript =
     \<lparr>req_method = ''PUT'', url = ''/transcript'', query = no_query, chunks = [], ended = True\<rparr>"

definition post_empty_model :: request where
  "post_empty_model =
     \<lparr>req_method = ''POST'', url = ''/transcript?model='',
      query = no_query(''model'' := Str []), chunks = [[0x52, 0x49, 0x46, 0x46]], ended = True\<rparr>"

definition get_wrong_model_quote_id :: request where
  "get_wrong_model_quote_id =
     \<lparr>req_method = ''GET'', url = ''/transcript?id=%22&speech=a.wav&model=wrong'',
      query = no_query(''id'' := Str [CHR 0x22], ''speech'' := Str ''a.wav'', ''model'' := Str ''wrong''),
      chunks = [], ended = True\<rparr>"

lemmas sample_defs =
  sample_env_def sample_server_def sample_parse_def sample_transcript_def no_query_def new_res_def

lemmas handler_defs =
  requestListener_def responseTranscriptGet_def responseTranscriptPost_def respond_def
  thread_started_def thread_finished_def parse_grammar_def errorResponse_def successResponse_def
  setHeader_def after_def log_def url_match_def push_chunks_def Buffer_concat_def Let_def

lemmas json_text_defs = quote_def escape_def

section \<open>Facts about the parts\<close>

lemma push_chunks_append: "push_chunks body cs = body @ cs"
  unfolding push_chunks_def by (induction cs arbitrary: body) simp_all

lemma dec_digit: "n < 10 \<Longrightarrow> dec n = [''0123456789'' ! n]"
  by (simp add: dec.simps)

lemma dec_digits: "\<not> n < 10 \<Longrightarrow> dec n = dec (n div 10) @ [''0123456789'' ! (n mod 10)]"
  by (subst dec.simps) simp

lemma dec_timestamp: "dec 1620060067830 = ''1620060067830''"
  by (simp add: dec_digit dec_digits)

lemma engine_calls_Nil [simp]: "engine_calls [] = []"
  by (simp add: engine_calls_def)

lemma engine_calls_Cons [simp]:
  "engine_calls (e # t) = (if is_engine_call e then e # engine_calls t else engine_calls t)"
  by (simp add: engine_calls_def)

lemma engine_calls_append [simp]: "engine_calls (s @ t) = engine_calls s @ engine_calls t"
  by (simp add: engine_calls_def)

lemma is_engine_call_log [simp]: "\<not> is_engine_call (log a b c)"
  by (simp add: log_def)

lemma trace_after [simp]: "trace_of (after t out) = t @ trace_of out"
  by (simp add: after_def)

lemma res_after [simp]: "res_of (after t out) = res_of out"
  by (simp add: after_def)

lemma srv_after [simp]: "srv_of (after t out) = srv_of out"
  by (simp add: after_def)

lemma errorResponse_simps [simp]:
  "statusCode (res_of (errorResponse m c r S)) = c"
  "sent (res_of (errorResponse m c r S)) = Some (''{\"error\":\"'' @ m @ ''\"}'')"
  "headers (res_of (errorResponse m c r S)) = headers r"
  "srv_of (errorResponse m c r S) = S"
  "engine_calls (trace_of (errorResponse m c r S)) = []"
  by (simp_all add: errorResponse_def)

lemma successResponse_simps [simp]:
  "statusCode (res_of (successResponse i j r S)) = statusCode r"
  "sent (res_of (successResponse i j r S)) = Some j"
  "headers (res_of (successResponse i j r S)) = headers r"
  "srv_of (successResponse i j r S) = S"
  "engine_calls (trace_of (successResponse i j r S)) = []"
  by (simp_all add: successResponse_def)

lemma thread_started_simps [simp]:
  "engine_calls (snd (thread_started S)) = []"
  "model (fst (thread_started S)) = model S"
  "debug (fst (thread_started S)) = debug S"
  "activeRequests (fst (thread_started S)) =
     (if debug S then activeRequests S + 1 else activeRequests S)"
  by (simp_all add: thread_started_def Let_def)

lemma thread_finished_simps [simp]:
  "engine_calls (snd (thread_finished S)) = []"
  "model (fst (thread_finished S)) = model S"
  "debug (fst (thread_finished S)) = debug S"
  "activeRequests (fst (thread_finished S)) =
     (if debug S then activeRequests S - 1 else activeRequests S)"
  by (simp_all add: thread_finished_def Let_def)

lemma respond_simps [simp]:
  "statusCode (res_of (respond E S i td r)) = statusCode r"
  "headers (res_of (respond E S i td r)) = headers r"
  "sent (res_of (respond E S i td r)) =
     Some (JSON_stringify E
       (Obj (spread (spread (spread [] [(''id'', i)]) [(''latency'', Num (latency td))]) (result td))))"
  "srv_of (respond E S i td r) = fst (thread_finished S)"
  "engine_calls (trace_of (respond E S i td r)) = []"
  by (simp_all add: respond_def Let_def split: prod.split)
     (use thread_finished_simps(1) [of S] in \<open>simp add: thread_finished_def Let_def\<close>)

text \<open>
  When the payload has no property called \<^verbatim>\<open>id\<close> or \<^verbatim>\<open>latency\<close>, the response object is
  these two followed by the payload's properties.
\<close>

lemma set_prop_fresh: "k \<notin> fst ` set ps \<Longrightarrow> set_prop k v ps = ps @ [(k, v)]"
  by (induction ps) auto

lemma spread_fresh:
  "distinct (map fst src) \<Longrightarrow> fst ` set src \<inter> fst ` set obj = {} \<Longrightarrow> spread obj src = obj @ src"
proof (induction src arbitrary: obj)
  case Nil
  then show ?case by (simp add: spread_def)
next
  case (Cons p src)
  have fresh: "fst p \<notin> fst ` set obj"
    using Cons.prems(2) by auto
  have step: "spread obj (p # src) = spread (set_prop (fst p) (snd p) obj) src"
    by (simp add: spread_def)
  have "spread (obj @ [p]) src = (obj @ [p]) @ src"
  proof (rule Cons.IH)
    show "distinct (map fst src)" using Cons.prems(1) by simp
    show "fst ` set src \<inter> fst ` set (obj @ [p]) = {}"
      using Cons.prems by auto
  qed
  with fresh step show ?case
    by (simp add: set_prop_fresh)
qed

lemma response_object:
  assumes "distinct (map fst ps)" and "''id'' \<notin> fst ` set ps" and "''latency'' \<notin> fst ` set ps"
  shows "spread (spread (spread [] [(''id'', i)]) [(''latency'', l)]) ps
           = (''id'', i) # (''latency'', l) # ps"
proof -
  have "spread (spread [] [(''id'', i)]) [(''latency'', l)] = [(''id'', i), (''latency'', l)]"
    by (simp add: spread_def)
  moreover have "spread [(''id'', i), (''latency'', l)] ps = [(''id'', i), (''latency'', l)] @ ps"
    using assms by (intro spread_fresh) auto
  ultimately show ?thesis by simp
qed

section \<open>The two transcript handlers\<close>

lemma Post_engine_calls:
  "engine_calls (trace_of (responseTranscriptPost E S i buffer mn g r)) =
     (case parse_grammar E g of
        Inl e \<Rightarrow> []
      | Inr gr \<Rightarrow> [TranscriptFromBuffer buffer (model S) gr])"
  unfolding responseTranscriptPost_def
  by (cases "thread_started S")
     (use thread_started_simps(1,2) [of S] in \<open>auto split: sum.splits\<close>)

lemma Get_engine_calls:
  "engine_calls (trace_of (responseTranscriptGet E S i f mn g r)) =
     (case parse_grammar E g of
        Inl e \<Rightarrow> []
      | Inr gr \<Rightarrow> [TranscriptFromFile f (model S) gr])"
  unfolding responseTranscriptGet_def
  by (cases "thread_started S")
     (use thread_started_simps(1,2) [of S] in \<open>auto split: sum.splits\<close>)

lemma Post_res:
  "res_of (responseTranscriptPost E S i buffer mn g r) =
     (case parse_grammar E g of
        Inl e \<Rightarrow> res_of (errorResponse (''id '' @ to_string i @ '' transcript function '' @ e) 415 r S)
      | Inr gr \<Rightarrow>
          (case transcriptFromBuffer E buffer (model S) gr of
             Inl e \<Rightarrow> res_of (errorResponse (''id '' @ to_string i @ '' transcript function '' @ e) 415 r S)
           | Inr td \<Rightarrow> res_of (respond E S i td r)))"
  unfolding responseTranscriptPost_def
  by (cases "thread_started S")
     (use thread_started_simps(2) [of S] in
      \<open>auto split: sum.splits simp: errorResponse_def respond_def successResponse_def Let_def after_def
         split: prod.splits\<close>)

lemma Get_res:
  "res_of (responseTranscriptGet E S i f mn g r) =
     (case parse_grammar E g of
        Inl e \<Rightarrow> res_of (errorResponse (''id '' @ to_string i @ '' transcript function '' @ e) 415 r S)
      | Inr gr \<Rightarrow>
          (case transcriptFromFile E f (model S) gr of
             Inl e \<Rightarrow> res_of (errorResponse (''id '' @ to_string i @ '' transcript function '' @ e) 415 r S)
           | Inr td \<Rightarrow> res_of (respond E S i td r)))"
  unfolding responseTranscriptGet_def
  by (cases "thread_started S")
     (use thread_started_simps(2) [of S] in
      \<open>auto split: sum.splits simp: errorResponse_def respond_def successResponse_def Let_def after_def
         split: prod.splits\<close>)

text \<open>
  The counter after a handler has run: unchanged when the engine returned a result, one
  more when \<^verbatim>\<open>debug\<close> is on and the handler left through its \<^verbatim>\<open>catch\<close>.
\<close>

lemma Get_activeRequests:
  "activeRequests (srv_of (responseTranscriptGet E S i f mn g r)) =
     (case parse_grammar E g of
        Inl e \<Rightarrow> (if debug S then activeRequests S + 1 else activeRequests S)
      | Inr gr \<Rightarrow>
          (case transcriptFromFile E f (model S) gr of
             Inl e \<Rightarrow> (if debug S then activeRequests S + 1 else activeRequests S)
           | Inr td \<Rightarrow> activeRequests S))"
  unfolding responseTranscriptGet_def
  by (cases "thread_started S")
     (use thread_started_simps(2,3,4) [of S] in \<open>auto split: sum.splits\<close>)

lemma Post_activeRequests:
  "activeRequests (srv_of (responseTranscriptPost E S i b mn g r)) =
     (case parse_grammar E g of
        Inl e \<Rightarrow> (if debug S then activeRequests S + 1 else activeRequests S)
      | Inr gr \<Rightarrow>
          (case transcriptFromBuffer E b (model S) gr of
             Inl e \<Rightarrow> (if debug S then activeRequests S + 1 else activeRequests S)
           | Inr td \<Rightarrow> activeRequests S))"
  unfolding responseTranscriptPost_def
  by (cases "thread_started S")
     (use thread_started_simps(2,3,4) [of S] in \<open>auto split: sum.splits\<close>)

text \<open>
  Every response to a fresh response object carries the JSON content type, and its status
  is one of four.
\<close>

lemma content_type_first:
  "headers (res_of (requestListener E S req currentTime new_res))
     = [(''Content-Type'', ''application/json'')]"
  by (auto simp: requestListener_def Let_def Get_res Post_res setHeader_def new_res_def
        split: sum.splits)

lemma response_statuses:
  "statusCode (res_of (requestListener E S req currentTime new_res)) \<in> {200, 404, 405, 415}"
  by (auto simp: requestListener_def Let_def Get_res Post_res setHeader_def new_res_def
        split: sum.splits)

lemma error_envelope_iff:
  "error_envelope (''{\"error\":\"'' @ message @ ''\"}'') = (string_rest (message @ ''\"}'') = Some ''}'')"
  by (simp add: error_envelope_def)

lemma model_error_is_envelope:
  "sent (res_of (requestListener sample_env sample_server get_wrong_model 1620060067830 new_res))
     = Some ''{\"error\":\"id 1620060067830 Vosk model [object Object] unknown\"}''
   \<and> error_envelope ''{\"error\":\"id 1620060067830 Vosk model [object Object] unknown\"}''"
  by (simp add: get_wrong_model_def sample_defs handler_defs dec_timestamp error_envelope_def)

section \<open>The body of a POST reaches the engine unchanged\<close>

text \<open>
  C1. For every POST request to the transcript endpoint that passes model validation, the
  byte buffer passed to the Engine Adapter (\<^verbatim>\<open>transcriptFromBuffer\<close>) is the concatenation,
  in arrival order, of all body chunks received on the request stream, the same bytes in
  the same order and number. The calls of the engine that the request causes are given in
  full: once the stream has ended and the grammar has been read there is exactly one, with
  the concatenated chunks; before the end of the stream, or when the grammar does not
  parse, there is none.
\<close>

theorem post_buffer_is_concatenation:
  assumes "url_match (url req)"
    and "req_method req = ''POST''"
    and "\<not> (truthy (query req ''model'') \<and> query req ''model'' \<noteq> Str (modelName S))"
  shows "engine_calls (trace_of (requestListener E S req currentTime r0)) =
           (if ended req
            then (case parse_grammar E (query req ''grammar'') of
                    Inl e \<Rightarrow> []
                  | Inr g \<Rightarrow> [TranscriptFromBuffer (concat (chunks req)) (model S) g])
            else [])"
  using assms
  by (auto simp: requestListener_def Let_def Post_engine_calls push_chunks_append Buffer_concat_def)

text \<open>
  C1, on the bytes \<^verbatim>\<open>52 49 46 46\<close> delivered in two chunks, and in three chunks of which
  one is empty, with a grammar: the engine receives the four bytes in one buffer.
\<close>

theorem post_buffer_is_concatenation_witness:
  "engine_calls (trace_of (requestListener sample_env sample_server post_two_chunks 1620060067830 new_res))
     = [TranscriptFromBuffer [0x52, 0x49, 0x46, 0x46] (Obj []) Undefined]
   \<and> engine_calls (trace_of (requestListener sample_env sample_server post_with_grammar 1620060067830 new_res))
     = [TranscriptFromBuffer [0x52, 0x49, 0x46, 0x46] (Obj []) (Arr [Str ''experience proves this''])]"
  using post_buffer_is_concatenation
      [where req = post_two_chunks and S = sample_server and E = sample_env
         and currentTime = 1620060067830 and ?r0.0 = new_res]
    post_buffer_is_concatenation
      [where req = post_with_grammar and S = sample_server and E = sample_env
         and currentTime = 1620060067830 and ?r0.0 = new_res]
  by (simp add: post_two_chunks_def post_with_grammar_def sample_defs url_match_def parse_grammar_def)

section \<open>A request for another model\<close>

text \<open>
  C2 as stated, that every GET or POST request whose \<^verbatim>\<open>model\<close> argument is present and
  differs from the loaded model's name is answered with 404, does not hold. A GET without
  \<^verbatim>\<open>speech\<close> is answered with 405 before the model is looked at, and an empty \<^verbatim>\<open>model\<close>
  argument counts as none: the POST below reaches the engine and is answered with 200.
\<close>

theorem model_mismatch_counterexample:
  "query get_wrong_model_no_speech ''model'' = Str ''wrong''
   \<and> Str ''wrong'' \<noteq> Str (modelName sample_server)
   \<and> statusCode (res_of (requestListener sample_env sample_server get_wrong_model_no_speech
         1620060067830 new_res)) = 405
   \<and> query post_empty_model ''model'' = Str []
   \<and> Str [] \<noteq> Str (modelName sample_server)
   \<and> statusCode (res_of (requestListener sample_env sample_server post_empty_model
         1620060067830 new_res)) = 200
   \<and> engine_calls (trace_of (requestListener sample_env sample_server post_empty_model
         1620060067830 new_res)) = [TranscriptFromBuffer [0x52, 0x49, 0x46, 0x46] (Obj []) Undefined]"
  by (simp add: get_wrong_model_no_speech_def post_empty_model_def sample_defs handler_defs)

text \<open>
  C2, amended. For every request whose URL begins with \<^verbatim>\<open>/transcript\<close>, that is a GET with a
  non-empty \<^verbatim>\<open>speech\<close> argument or a POST, and whose \<^verbatim>\<open>model\<close> argument is non-empty and
  differs from the loaded model's name, the response status is 404 and the Engine Adapter
  is not invoked; for a POST the answer is given before the body is looked at: it is the
  same whatever chunks arrive and whether or not the stream ends.
\<close>

theorem model_mismatch_404:
  assumes "url_match (url req)"
    and "req_method req = ''GET'' \<and> truthy (query req ''speech'') \<or> req_method req = ''POST''"
    and "truthy (query req ''model'')"
    and "query req ''model'' \<noteq> Str (modelName S)"
  shows "statusCode (res_of (requestListener E S req currentTime r0)) = 404
       \<and> engine_calls (trace_of (requestListener E S req currentTime r0)) = []
       \<and> (req_method req = ''POST'' \<longrightarrow>
            requestListener E S (req\<lparr>chunks := cs, ended := fin\<rparr>) currentTime r0
              = requestListener E S req currentTime r0)"
  using assms by (auto simp: requestListener_def Let_def)

text \<open>C2, amended, on a GET and on a POST that ask for the model \<^verbatim>\<open>wrong\<close>.\<close>

theorem model_mismatch_404_witness:
  "statusCode (res_of (requestListener sample_env sample_server get_wrong_model 1620060067830 new_res)) = 404
   \<and> engine_calls (trace_of (requestListener sample_env sample_server get_wrong_model 1620060067830 new_res)) = []
   \<and> statusCode (res_of (requestListener sample_env sample_server post_wrong_model 1620060067830 new_res)) = 404
   \<and> engine_calls (trace_of (requestListener sample_env sample_server post_wrong_model 1620060067830 new_res)) = []
   \<and> requestListener sample_env sample_server (post_wrong_model\<lparr>chunks := [], ended := False\<rparr>)
        1620060067830 new_res
      = requestListener sample_env sample_server post_wrong_model 1620060067830 new_res"
  using model_mismatch_404
      [where req = get_wrong_model and S = sample_server and E = sample_env
         and currentTime = 1620060067830 and ?r0.0 = new_res]
    model_mismatch_404
      [where req = post_wrong_model and S = sample_server and E = sample_env
         and currentTime = 1620060067830 and ?r0.0 = new_res and cs = "[]" and fin = False]
  by (simp add: get_wrong_model_def post_wrong_model_def sample_defs url_match_def)

section \<open>A GET without the speech argument\<close>

text \<open>
  For every GET request whose URL begins with \<^verbatim>\<open>/transcript\<close> and whose query string has no
  \<^verbatim>\<open>speech\<close> argument, the status is 405, the text sent is \<^verbatim>\<open>{"error":"\<close>, a message that is
  not empty, \<^verbatim>\<open>"}\<close>, and the engine is not invoked.
\<close>

lemma get_without_speech_405:
  assumes "url_match (url req)"
    and "req_method req = ''GET''"
    and "query req ''speech'' = Undefined"
  shows "statusCode (res_of (requestListener E S req currentTime r0)) = 405
       \<and> sent (res_of (requestListener E S req currentTime r0))
           = Some (''{\"error\":\"'' @ ''id ''
                @ to_string (if truthy (query req ''id'') then query req ''id'' else Num (int currentTime))
                @ '' \"speech\" attribute not found in the body request'' @ ''\"}'')
       \<and> engine_calls (trace_of (requestListener E S req currentTime r0)) = []"
  using assms by (auto simp: requestListener_def Let_def)

text \<open>
  C3. For every GET request to the transcript endpoint whose query string lacks the
  \<^verbatim>\<open>speech\<close> parameter, the response status is 405, the response body contains a non-empty
  \<^verbatim>\<open>error\<close> field, and the Engine Adapter is never invoked. The status and the engine are as
  the claim says. The body is not: the message is put between the quotes as it is, and it
  has quotes of its own around the word \<^verbatim>\<open>speech\<close>. Read as JSON, the string that is the
  value of \<^verbatim>\<open>error\<close> ends before that word, what follows it is not JSON, and the body has
  no field to read.
\<close>

theorem get_without_speech_body:
  "statusCode (res_of (requestListener sample_env sample_server get_no_speech 1620060067830 new_res)) = 405
   \<and> engine_calls (trace_of (requestListener sample_env sample_server get_no_speech 1620060067830 new_res)) = []
   \<and> sent (res_of (requestListener sample_env sample_server get_no_speech 1620060067830 new_res))
        = Some ''{\"error\":\"id 1620060067830 \"speech\" attribute not found in the body request\"}''
   \<and> string_rest ''id 1620060067830 \"speech\" attribute not found in the body request\"}''
        = Some ''speech\" attribute not found in the body request\"}''
   \<and> \<not> error_envelope ''{\"error\":\"id 1620060067830 \"speech\" attribute not found in the body request\"}''"
  by (simp add: get_no_speech_def sample_defs handler_defs dec_timestamp error_envelope_def)

section \<open>The counter of active requests\<close>

text \<open>
  C4. With debug enabled, after any N concurrent transcription requests have each
  completed, in success or in failure, the counter \<^verbatim>\<open>activeRequests\<close> is back at 0: every
  request that increments the counter decrements it once on every exit path. The code
  does not do this. The decrement stands after the engine call inside the \<^verbatim>\<open>try\<close>, so a
  handler that leaves through its \<^verbatim>\<open>catch\<close> has counted up and never counts down. Here one
  GET with a grammar that is not JSON, on a server with debug on and the counter at 0, is
  answered with 415 and leaves the counter at 1.
\<close>

theorem failed_request_stays_counted:
  "debug sample_server
   \<and> activeRequests sample_server = 0
   \<and> statusCode (res_of (requestListener sample_env sample_server get_bad_grammar 1620060067830 new_res)) = 415
   \<and> sent (res_of (requestListener sample_env sample_server get_bad_grammar 1620060067830 new_res))
        = Some ''{\"error\":\"id 1620060067830 transcript function SyntaxError: Unexpected end of JSON input\"}''
   \<and> activeRequests (srv_of (requestListener sample_env sample_server get_bad_grammar 1620060067830 new_res)) = 1"
  by (simp add: get_bad_grammar_def sample_defs handler_defs dec_timestamp)

text \<open>The same when it is the engine that fails, here on a file that does not exist.\<close>

lemma failed_engine_call_stays_counted:
  "statusCode (res_of (requestListener sample_env sample_server get_missing_file 1620060067830 new_res)) = 415
   \<and> engine_calls (trace_of (requestListener sample_env sample_server get_missing_file 1620060067830 new_res))
        = [TranscriptFromFile (Str ''missing.wav'') (Obj []) Undefined]
   \<and> activeRequests (srv_of (requestListener sample_env sample_server get_missing_file 1620060067830 new_res)) = 1"
  by (simp add: get_missing_file_def sample_defs handler_defs)

text \<open>And a request that succeeds leaves the counter where it was.\<close>

lemma served_request_is_uncounted:
  "statusCode (res_of (requestListener sample_env sample_server get_speech 1620060067830 new_res)) = 200
   \<and> activeRequests (srv_of (requestListener sample_env sample_server get_speech 1620060067830 new_res)) = 0"
  by (simp add: get_speech_def sample_defs handler_defs)

section \<open>A grammar that is not JSON\<close>

text \<open>
  C5 as stated, that every GET or POST request whose \<^verbatim>\<open>grammar\<close> argument is present and
  is not JSON is answered with 415, does not hold. A GET without \<^verbatim>\<open>speech\<close> is answered
  with 405 before the grammar is looked at, and an empty \<^verbatim>\<open>grammar\<close> argument, which is not
  JSON, is taken as no grammar: the POST below is answered with 200.
\<close>

theorem invalid_grammar_counterexample:
  "query get_no_speech_bad_grammar ''grammar'' = Str ''{''
   \<and> JSON_parse sample_env ''{'' = Inl ''SyntaxError: Unexpected end of JSON input''
   \<and> statusCode (res_of (requestListener sample_env sample_server get_no_speech_bad_grammar
         1620060067830 new_res)) = 405
   \<and> query post_empty_grammar ''grammar'' = Str []
   \<and> JSON_parse sample_env [] = Inl ''SyntaxError: Unexpected end of JSON input''
   \<and> statusCode (res_of (requestListener sample_env sample_server post_empty_grammar
         1620060067830 new_res)) = 200"
  by (simp add: get_no_speech_bad_grammar_def post_empty_grammar_def sample_defs handler_defs)

text \<open>
  C5, amended. For every request whose URL begins with \<^verbatim>\<open>/transcript\<close>, that is a GET with a
  non-empty \<^verbatim>\<open>speech\<close> argument or a POST whose body stream ends, whose \<^verbatim>\<open>model\<close> argument is
  absent, empty or the loaded model's name, and whose \<^verbatim>\<open>grammar\<close> argument is non-empty and
  makes \<^verbatim>\<open>JSON.parse\<close> throw, the response status is 415 and a response is sent, so the
  failure does not leave the handler; the engine is not invoked. The grammar is not
  checked up front: the failure is caught by the handler's one \<^verbatim>\<open>catch\<close>, which answers
  with the message \<^verbatim>\<open>id\<close>, the request id, \<^verbatim>\<open>transcript function\<close>, the error, as it does when
  the engine fails (lemma \<open>engine_failure_415\<close>).
\<close>

theorem invalid_grammar_415:
  assumes "url_match (url req)"
    and "req_method req = ''GET'' \<and> truthy (query req ''speech'') \<or> req_method req = ''POST'' \<and> ended req"
    and "\<not> (truthy (query req ''model'') \<and> query req ''model'' \<noteq> Str (modelName S))"
    and "truthy (query req ''grammar'')"
    and "JSON_parse E (to_string (query req ''grammar'')) = Inl error"
  shows "statusCode (res_of (requestListener E S req currentTime r0)) = 415
       \<and> sent (res_of (requestListener E S req currentTime r0))
           = Some (''{\"error\":\"'' @ ''id ''
                @ to_string (if truthy (query req ''id'') then query req ''id'' else Num (int currentTime))
                @ '' transcript function '' @ error @ ''\"}'')
       \<and> engine_calls (trace_of (requestListener E S req currentTime r0)) = []"
  using assms
  by (auto simp: requestListener_def Let_def Get_res Post_res Get_engine_calls Post_engine_calls
        parse_grammar_def)

text \<open>C5, amended, on a GET and on a POST with the grammar \<^verbatim>\<open>{\<close>.\<close>

theorem invalid_grammar_415_witness:
  "sent (res_of (requestListener sample_env sample_server get_bad_grammar 1620060067830 new_res))
     = Some ''{\"error\":\"id 1620060067830 transcript function SyntaxError: Unexpected end of JSON input\"}''
   \<and> statusCode (res_of (requestListener sample_env sample_server get_bad_grammar 1620060067830 new_res)) = 415
   \<and> engine_calls (trace_of (requestListener sample_env sample_server get_bad_grammar 1620060067830 new_res)) = []
   \<and> statusCode (res_of (requestListener sample_env sample_server post_bad_grammar 1620060067830 new_res)) = 415
   \<and> engine_calls (trace_of (requestListener sample_env sample_server post_bad_grammar 1620060067830 new_res)) = []"
  using invalid_grammar_415
      [where req = get_bad_grammar and S = sample_server and E = sample_env
         and currentTime = 1620060067830 and ?r0.0 = new_res
         and error = "''SyntaxError: Unexpected end of JSON input''"]
    invalid_grammar_415
      [where req = post_bad_grammar and S = sample_server and E = sample_env
         and currentTime = 1620060067830 and ?r0.0 = new_res
         and error = "''SyntaxError: Unexpected end of JSON input''"]
  by (simp add: get_bad_grammar_def post_bad_grammar_def sample_defs url_match_def dec_timestamp)

lemma engine_failure_415:
  assumes "url_match (url req)"
    and "req_method req = ''GET'' \<and> truthy (query req ''speech'')
           \<and> transcriptFromFile E (query req ''speech'') (model S) g = Inl error
         \<or> req_method req = ''POST'' \<and> ended req
           \<and> transcriptFromBuffer E (concat (chunks req)) (model S) g = Inl error"
    and "\<not> (truthy (query req ''model'') \<and> query req ''model'' \<noteq> Str (modelName S))"
    and "parse_grammar E (query req ''grammar'') = Inr g"
  shows "statusCode (res_of (requestListener E S req currentTime r0)) = 415
       \<and> sent (res_of (requestListener E S req currentTime r0))
           = Some (''{\"error\":\"'' @ ''id ''
                @ to_string (if truthy (query req ''id'') then query req ''id'' else Num (int currentTime))
                @ '' transcript function '' @ error @ ''\"}'')"
  using assms
  by (auto simp: requestListener_def Let_def Get_res Post_res push_chunks_append Buffer_concat_def)

section \<open>The id and the success envelope\<close>

text \<open>
  C6 as stated, that an \<^verbatim>\<open>id\<close> argument, if supplied, is echoed in the response, does not
  hold: an \<^verbatim>\<open>id\<close> supplied with an empty value is replaced by the timestamp.
\<close>

theorem id_echo_counterexample:
  "query get_empty_id ''id'' = Str []
   \<and> statusCode (res_of (requestListener sample_env sample_server get_empty_id 1620060067830 new_res)) = 200
   \<and> sent (res_of (requestListener sample_env sample_server get_empty_id 1620060067830 new_res))
        = Some ''{\"id\":1620060067830,\"latency\":12,\"text\":\"experience proves this\"}''"
  by (simp add: get_empty_id_def sample_defs handler_defs spread_def json_text_defs dec_timestamp
        dec_digit dec_digits)

text \<open>
  C6, amended. For every request that is answered with success (its URL begins with
  \<^verbatim>\<open>/transcript\<close>, it is a GET with a non-empty \<^verbatim>\<open>speech\<close> argument or a POST whose stream
  ends, the model argument is accepted, the grammar is read and the engine returns a
  result) and whose result payload has no property named \<^verbatim>\<open>id\<close> or \<^verbatim>\<open>latency\<close>, the status
  is 200 and the text sent is \<^verbatim>\<open>JSON.stringify\<close> of the object made of \<^verbatim>\<open>id\<close>, \<^verbatim>\<open>latency\<close> and
  the properties of the payload, where \<^verbatim>\<open>id\<close> is the \<^verbatim>\<open>id\<close> argument as it was given if it
  is non-empty, and the millisecond timestamp taken when the handling of the request
  began if the argument is omitted or empty. The properties of the payload have distinct
  names, as those of an object do. Lemma \<open>status_200_only_after_engine\<close> adds that no
  other request is answered with 200.
\<close>

theorem success_envelope:
  assumes "url_match (url req)"
    and "req_method req = ''GET'' \<and> truthy (query req ''speech'')
           \<and> transcriptFromFile E (query req ''speech'') (model S) g = Inr td
         \<or> req_method req = ''POST'' \<and> ended req
           \<and> transcriptFromBuffer E (concat (chunks req)) (model S) g = Inr td"
    and "\<not> (truthy (query req ''model'') \<and> query req ''model'' \<noteq> Str (modelName S))"
    and "parse_grammar E (query req ''grammar'') = Inr g"
    and "distinct (map fst (result td))"
    and "''id'' \<notin> fst ` set (result td)"
    and "''latency'' \<notin> fst ` set (result td)"
  shows "statusCode (res_of (requestListener E S req currentTime new_res)) = 200
       \<and> sent (res_of (requestListener E S req currentTime new_res))
           = Some (JSON_stringify E (Obj
               ((''id'', if truthy (query req ''id'') then query req ''id'' else Num (int currentTime))
                 # (''latency'', Num (latency td)) # result td)))"
  using assms
  by (auto simp: requestListener_def Let_def Get_res Post_res push_chunks_append Buffer_concat_def
        response_object setHeader_def new_res_def)

text \<open>
  C6, amended, on a GET that supplies the id \<^verbatim>\<open>req-17\<close> and on a POST without an id, which
  gets the timestamp.
\<close>

theorem success_envelope_witness:
  "sent (res_of (requestListener sample_env sample_server get_with_id 1620060067830 new_res))
     = Some ''{\"id\":\"req-17\",\"latency\":12,\"text\":\"experience proves this\"}''
   \<and> statusCode (res_of (requestListener sample_env sample_server get_with_id 1620060067830 new_res)) = 200
   \<and> sent (res_of (requestListener sample_env sample_server post_two_chunks 1620060067830 new_res))
     = Some ''{\"id\":1620060067830,\"latency\":12,\"text\":\"experience proves this\"}''
   \<and> statusCode (res_of (requestListener sample_env sample_server post_two_chunks 1620060067830 new_res)) = 200"
  using success_envelope
      [where req = get_with_id and S = sample_server and E = sample_env
         and currentTime = 1620060067830 and g = Undefined and td = sample_transcript]
    success_envelope
      [where req = post_two_chunks and S = sample_server and E = sample_env
         and currentTime = 1620060067830 and g = Undefined and td = sample_transcript]
  by (simp add: get_with_id_def post_two_chunks_def sample_defs url_match_def parse_grammar_def
        json_text_defs dec_timestamp dec_digit dec_digits)

lemma status_200_only_after_engine:
  assumes "statusCode (res_of (requestListener E S req currentTime new_res)) = 200"
    and "sent (res_of (requestListener E S req currentTime new_res)) = Some text"
  shows "\<exists>g td. parse_grammar E (query req ''grammar'') = Inr g
           \<and> (req_method req = ''GET'' \<and> transcriptFromFile E (query req ''speech'') (model S) g = Inr td
              \<or> req_method req = ''POST'' \<and> transcriptFromBuffer E (concat (chunks req)) (model S) g = Inr td)
           \<and> text = JSON_stringify E (Obj (spread (spread (spread [] [(''id'',
                 if truthy (query req ''id'') then query req ''id'' else Num (int currentTime))])
                 [(''latency'', Num (latency td))]) (result td)))"
  using assms
  by (auto simp: requestListener_def Let_def Get_res Post_res push_chunks_append Buffer_concat_def
        setHeader_def new_res_def split: if_splits sum.splits)

section \<open>The text of an error response\<close>

text \<open>
  C7. Every error response, for every failing request and every error message produced,
  also one that embeds text chosen by the client, is well-formed JSON with the single
  string field \<^verbatim>\<open>error\<close>, has a status among 404, 405 and 415, and has its content type set
  to JSON before anything else is done. The statuses and the content type are as the
  claim says (lemmas \<open>response_statuses\<close> and \<open>content_type_first\<close>). The text is not always
  JSON: \<^verbatim>\<open>errorResponse\<close> puts the message between two quotes without escaping it, where the
  success path goes through \<^verbatim>\<open>JSON.stringify\<close>. Here the client sends the id \<^verbatim>\<open>"\<close> and asks
  for a model that is not loaded; the string that is the value of \<^verbatim>\<open>error\<close> ends at the
  client's quote, and what follows is not JSON.
\<close>

theorem error_text_is_not_json:
  "statusCode (res_of (requestListener sample_env sample_server get_wrong_model_quote_id
         1620060067830 new_res)) = 404
   \<and> sent (res_of (requestListener sample_env sample_server get_wrong_model_quote_id
         1620060067830 new_res))
        = Some ''{\"error\":\"id \" Vosk model [object Object] unknown\"}''
   \<and> string_rest ''id \" Vosk model [object Object] unknown\"}''
        = Some '' Vosk model [object Object] unknown\"}''
   \<and> \<not> error_envelope ''{\"error\":\"id \" Vosk model [object Object] unknown\"}''"
  by (simp add: get_wrong_model_quote_id_def sample_defs handler_defs error_envelope_def)

section \<open>Other paths and other methods\<close>

text \<open>
  C8 as stated, that every request whose path is not the transcript endpoint is answered
  with 405, does not hold: the path is only required to begin with \<^verbatim>\<open>/transcript\<close>, and a
  GET of \<^verbatim>\<open>/transcriptions\<close> reaches the engine and is answered with 200.
\<close>

theorem other_path_counterexample:
  "pathname (url get_other_path) = ''/transcriptions''
   \<and> ''/transcriptions'' \<noteq> ''/transcript''
   \<and> statusCode (res_of (requestListener sample_env sample_server get_other_path 1620060067830 new_res)) = 200
   \<and> engine_calls (trace_of (requestListener sample_env sample_server get_other_path 1620060067830 new_res))
        = [TranscriptFromFile (Str ''a.wav'') (Obj []) Undefined]"
  by (simp add: get_other_path_def sample_defs handler_defs pathname_def)

text \<open>
  C8, amended. For every request whose URL does not begin with \<^verbatim>\<open>/transcript\<close> the response
  status is 405, with the message \<^verbatim>\<open>path not allowed\<close> whatever the method is, and for every
  request whose URL begins with \<^verbatim>\<open>/transcript\<close> and whose method is neither GET nor POST the
  response status is 405; the engine is not invoked.
\<close>

theorem other_path_or_method_405:
  assumes "\<not> url_match (url req) \<or> req_method req \<noteq> ''GET'' \<and> req_method req \<noteq> ''POST''"
  shows "statusCode (res_of (requestListener E S req currentTime r0)) = 405
       \<and> sent (res_of (requestListener E S req currentTime r0))
           = Some (''{\"error\":\"''
                @ (if \<not> url_match (url req) then ''path not allowed '' @ url req
                   else ''method not allowed '' @ req_method req)
                @ ''\"}'')
       \<and> engine_calls (trace_of (requestListener E S req currentTime r0)) = []"
  using assms by (auto simp: requestListener_def Let_def)

text \<open>C8, amended, on a GET of \<^verbatim>\<open>/\<close> and on a PUT of \<^verbatim>\<open>/transcript\<close>.\<close>

theorem other_path_or_method_405_witness:
  "statusCode (res_of (requestListener sample_env sample_server get_root 1620060067830 new_res)) = 405
   \<and> sent (res_of (requestListener sample_env sample_server get_root 1620060067830 new_res))
        = Some ''{\"error\":\"path not allowed /\"}''
   \<and> statusCode (res_of (requestListener sample_env sample_server put_transcript 1620060067830 new_res)) = 405
   \<and> sent (res_of (requestListener sample_env sample_server put_transcript 1620060067830 new_res))
        = Some ''{\"error\":\"method not allowed PUT\"}''"
  using other_path_or_method_405
      [where req = get_root and S = sample_server and E = sample_env
         and currentTime = 1620060067830 and ?r0.0 = new_res]
    other_path_or_method_405
      [where req = put_transcript and S = sample_server and E = sample_env
         and currentTime = 1620060067830 and ?r0.0 = new_res]
  by (simp add: get_root_def put_transcript_def url_match_def)

section \<open>Exit codes\<close>

text \<open>
  C9. The process exits with code 1 when the model directory is missing from the
  configuration at startup, and with code 0 on every shutdown path, which are the
  termination signal, the interrupt signal and an uncaught failure, and each shutdown
  releases the model exactly once before it exits.
\<close>

theorem exit_codes:
  "(args ''model'' = Undefined \<longrightarrow>
      validateArgs args programName HTTP_PORT = Inl (helpAndExit programName)
      \<and> exit_code (helpAndExit programName) = Some 1)
   \<and> exit_code (process_on ev S) = Some 0
   \<and> releases (process_on ev S) = [FreeModel (model S)]"
  by (cases ev) (simp_all add: validateArgs_def helpAndExit_def shutdown_def log_def releases_def)

text \<open>C9, on a start without arguments and on the three ways to shut down.\<close>

theorem exit_codes_witness:
  "validateArgs no_query ''voskjshttp'' (Num 3000) = Inl [Usage ''voskjshttp'', Exit 1]
   \<and> exit_code [Usage ''voskjshttp'', Exit 1] = Some 1
   \<and> exit_code (process_on SIGTERM sample_server) = Some 0
   \<and> releases (process_on SIGTERM sample_server) = [FreeModel (Obj [])]
   \<and> exit_code (process_on SIGINT sample_server) = Some 0
   \<and> releases (process_on SIGINT sample_server) = [FreeModel (Obj [])]
   \<and> exit_code (process_on (UncaughtException ''TypeError: x is not a function'') sample_server) = Some 0
   \<and> releases (process_on (UncaughtException ''TypeError: x is not a function'') sample_server)
        = [FreeModel (Obj [])]"
  using exit_codes
      [where args = no_query and programName = "''voskjshttp''" and HTTP_PORT = "Num 3000"
         and ev = SIGTERM and S = sample_server]
    exit_codes
      [where args = no_query and programName = "''voskjshttp''" and HTTP_PORT = "Num 3000"
         and ev = SIGINT and S = sample_server]
    exit_codes
      [where args = no_query and programName = "''voskjshttp''" and HTTP_PORT = "Num 3000"
         and ev = "UncaughtException ''TypeError: x is not a function''" and S = sample_server]
  by (simp add: no_query_def helpAndExit_def sample_server_def)

section \<open>A POST without a body\<close>

text \<open>
  C10 as stated, that every POST request that passes model validation and whose body
  stream delivers no chunk still has the engine invoked with an empty buffer, does not
  hold: when the grammar argument does not parse, the handler answers with 415 and the
  engine is not invoked.
\<close>

theorem empty_post_counterexample:
  "chunks post_empty_bad_grammar = []
   \<and> ended post_empty_bad_grammar
   \<and> query post_empty_bad_grammar ''model'' = Undefined
   \<and> statusCode (res_of (requestListener sample_env sample_server post_empty_bad_grammar
         1620060067830 new_res)) = 415
   \<and> engine_calls (trace_of (requestListener sample_env sample_server post_empty_bad_grammar
         1620060067830 new_res)) = []"
  by (simp add: post_empty_bad_grammar_def sample_defs handler_defs)

text \<open>
  C10, amended. For every POST request whose URL begins with \<^verbatim>\<open>/transcript\<close>, that passes
  model validation, whose body stream ends without having delivered a chunk, and whose
  grammar argument is absent, empty or parses, the handler invokes the engine, once, with
  the empty buffer; the status is 200 or 415 as the engine decides, not the 405 of a
  missing audio source, which is checked for GET only.
\<close>

theorem empty_post_reaches_engine:
  assumes "url_match (url req)"
    and "req_method req = ''POST''"
    and "\<not> (truthy (query req ''model'') \<and> query req ''model'' \<noteq> Str (modelName S))"
    and "chunks req = []"
    and "ended req"
    and "parse_grammar E (query req ''grammar'') = Inr g"
  shows "engine_calls (trace_of (requestListener E S req currentTime new_res))
           = [TranscriptFromBuffer [] (model S) g]
       \<and> (statusCode (res_of (requestListener E S req currentTime new_res)) = 200
          \<or> statusCode (res_of (requestListener E S req currentTime new_res)) = 415)"
  using assms
  by (auto simp: requestListener_def Let_def Post_res Post_engine_calls push_chunks_append
        Buffer_concat_def setHeader_def new_res_def split: sum.splits)

text \<open>C10, amended, on a POST of \<^verbatim>\<open>/transcript\<close> with no body and no arguments.\<close>

theorem empty_post_reaches_engine_witness:
  "engine_calls (trace_of (requestListener sample_env sample_server post_empty 1620060067830 new_res))
     = [TranscriptFromBuffer [] (Obj []) Undefined]
   \<and> statusCode (res_of (requestListener sample_env sample_server post_empty 1620060067830 new_res)) = 200"
  using empty_post_reaches_engine
      [where req = post_empty and S = sample_server and E = sample_env
         and currentTime = 1620060067830 and g = Undefined]
  by (simp add: post_empty_def sample_defs handler_defs)

end
